theory Spec2Isabelle
  imports Main "HOL-Library.Word" "HOL-Library.AList"
begin

section \<open>Strings, bytes and the Python primitives the converters use\<close>

text \<open>
  A Python \<open>str\<close> is a sequence of code points; a code point above 255 is what makes
  \<open>str.encode("latin1")\<close> raise, so a string is a list of naturals and not a list of
  8-bit characters. \<open>bytes\<close> is a list of 8-bit words.
\<close>

type_synonym pystr = "nat list"
type_synonym byte = "8 word"
type_synonym bytes = "byte list"

text \<open>A string literal of the theory as a Python string (all its code points are below 256).\<close>

definition str_of :: "string \<Rightarrow> pystr" where
  "str_of cs = map of_char cs"

datatype byteorder = LittleEndian | BigEndian

text \<open>\<open>int.bit_length()\<close>: the number of bits of the absolute value.\<close>

fun nat_bit_length :: "nat \<Rightarrow> nat" where
  "nat_bit_length n = (if n = 0 then 0 else Suc (nat_bit_length (n div 2)))"

declare nat_bit_length.simps [simp del]

definition bit_length :: "int \<Rightarrow> nat" where
  "bit_length v = nat_bit_length (nat \<bar>v\<bar>)"

subsection \<open>Classes, type hints and errors\<close>

text \<open>
  A class object is its name together with the rest of its method resolution order (its
  proper ancestors); two class objects are the same object when both agree. A type hint
  is a class, a special form of \<open>typing\<close> (\<open>typing.Literal\<close>, \<open>typing.Any\<close>), a union
  (\<open>X | Y\<close> or \<open>typing.Union[X, Y]\<close>, alternatives in the order written), a parameterised
  generic (\<open>list[int]\<close>: origin and arguments) or a parameterised literal
  (\<open>typing.Literal["a", "b"]\<close>).
\<close>

datatype cls = Cls (cname: string) (mro: "cls list")

datatype hint =
    Class cls
  | Special string
  | UnionOf "hint list"
  | Alias hint "hint list"
  | LiteralOf "string list"

text \<open>
  The exceptions the modelled code can raise. \<open>ConverterError h\<close> stands for the message
  \<open>Could not find converter for type `N`.\<close> where \<open>N\<close> is
  \<open>getattr(h, '__name__', h)\<close>: the payload is the hint the name is taken from. The two
  \<open>SerializerError\<close> messages keep the values they are formatted from.
\<close>

datatype serializer_message =
    TooLong (component: pystr) (got_length: nat) (expected_length: nat)
  | DoesNotExist (cookie_of: pystr)

datatype error =
    IndexError
  | UnicodeEncodeError
  | OverflowError
  | StructError
  | TypeError
  | AttributeError
  | ValueError
  | AssertionError
  | RecursionError
  | ConverterError hint
  | SerializerError serializer_message

text \<open>The \<open>k\<close> low bytes of \<open>n\<close>, least significant first.\<close>

fun le_bytes :: "nat \<Rightarrow> nat \<Rightarrow> bytes" where
  "le_bytes 0 n = []"
| "le_bytes (Suc k) n = of_nat (n mod 256) # le_bytes k (n div 256)"

text \<open>\<open>int.from_bytes(bs, "little")\<close>, unsigned.\<close>

fun int_from_bytes :: "bytes \<Rightarrow> nat" where
  "int_from_bytes [] = 0"
| "int_from_bytes (b # bs) = unat b + 256 * int_from_bytes bs"

text \<open>\<open>bytes.decode("latin1")\<close> never fails; \<open>str.encode("latin1")\<close> raises
  \<open>UnicodeEncodeError\<close> on a code point above 255.\<close>

definition decode_latin1 :: "bytes \<Rightarrow> pystr" where
  "decode_latin1 bs = map unat bs"

definition encode_latin1 :: "pystr \<Rightarrow> error + bytes" where
  "encode_latin1 s = (if list_all (\<lambda>c. c < 256) s then Inr (map of_nat s) else Inl UnicodeEncodeError)"

text \<open>\<open>int.to_bytes(length, "little")\<close> with the default \<open>signed=False\<close>: a negative value
  and a value that does not fit both raise \<open>OverflowError\<close>.\<close>

definition int_to_bytes :: "int \<Rightarrow> nat \<Rightarrow> error + bytes" where
  "int_to_bytes v len =
     (if v < 0 then Inl OverflowError
      else if 256 ^ len \<le> nat v then Inl OverflowError
      else Inr (le_bytes len (nat v)))"

text \<open>
  A 64-bit float is its IEEE-754 bit pattern. \<open>struct.pack("d", x)\<close> lays the eight bytes
  out in the byte order of the machine, which is a parameter here;
  \<open>struct.unpack("d", bs)\<close> raises \<open>struct.error\<close> unless \<open>bs\<close> has exactly eight bytes.
\<close>

type_synonym float64 = "64 word"

definition struct_pack_d :: "byteorder \<Rightarrow> float64 \<Rightarrow> bytes" where
  "struct_pack_d bo x =
     (case bo of LittleEndian \<Rightarrow> le_bytes 8 (unat x) | BigEndian \<Rightarrow> rev (le_bytes 8 (unat x)))"

definition struct_unpack_d :: "byteorder \<Rightarrow> bytes \<Rightarrow> error + float64" where
  "struct_unpack_d bo bs =
     (if length bs \<noteq> 8 then Inl StructError
      else Inr (of_nat (int_from_bytes (case bo of LittleEndian \<Rightarrow> bs | BigEndian \<Rightarrow> rev bs))))"

section \<open>The built-in converters on the types of their signatures\<close>

subsection \<open>StringConverter\<close>

definition StringConverter_to_str :: "pystr \<Rightarrow> error + pystr" where
  "StringConverter_to_str obj =
     (let length = length obj in
      case int_to_bytes (int length) 4 of
        Inl e \<Rightarrow> Inl e
      | Inr bs \<Rightarrow> (let byte_length = decode_latin1 bs in Inr (byte_length @ obj)))"

text \<open>\<open>obj[0]\<close> raises \<open>IndexError\<close> on the empty string; the slices never raise.\<close>

definition StringConverter_from_str :: "pystr \<Rightarrow> error + (pystr \<times> pystr)" where
  "StringConverter_from_str obj =
     (case obj of
        [] \<Rightarrow> Inl IndexError
      | c # _ \<Rightarrow>
          (case encode_latin1 [c] of
             Inl e \<Rightarrow> Inl e
           | Inr bs \<Rightarrow>
               (let length = int_from_bytes bs;
                    string = take length (drop 1 obj);
                    remaining = drop (length + 1) obj
                in Inr (remaining, string))))"

subsection \<open>FloatConverter\<close>

definition FloatConverter_to_str :: "byteorder \<Rightarrow> float64 \<Rightarrow> pystr" where
  "FloatConverter_to_str bo obj = decode_latin1 (struct_pack_d bo obj)"

definition FloatConverter_from_str :: "byteorder \<Rightarrow> pystr \<Rightarrow> error + (pystr \<times> float64)" where
  "FloatConverter_from_str bo obj =
     (let obj' = take 2 obj; remaining = drop 2 obj in
      case encode_latin1 obj' of
        Inl e \<Rightarrow> Inl e
      | Inr bs \<Rightarrow>
          (case struct_unpack_d bo bs of
             Inl e \<Rightarrow> Inl e
           | Inr x \<Rightarrow> Inr (remaining, x)))"

subsection \<open>BoolConverter\<close>

definition BoolConverter_to_str :: "bool \<Rightarrow> pystr" where
  "BoolConverter_to_str obj = (if obj then str_of ''t'' else str_of ''f'')"

definition BoolConverter_from_str :: "pystr \<Rightarrow> error + (pystr \<times> bool)" where
  "BoolConverter_from_str obj =
     (case obj of
        [] \<Rightarrow> Inl IndexError
      | c # remaining \<Rightarrow> Inr (remaining, [c] = str_of ''t''))"

section \<open>The converter registry\<close>

subsection \<open>Introspection of type hints\<close>

definition object_cls :: cls where "object_cls = Cls ''object'' []"
definition int_cls :: cls where "int_cls = Cls ''int'' [object_cls]"
definition bool_cls :: cls where "bool_cls = Cls ''bool'' [int_cls, object_cls]"
definition float_cls :: cls where "float_cls = Cls ''float'' [object_cls]"
definition str_cls :: cls where "str_cls = Cls ''str'' [object_cls]"
definition Enum_cls :: cls where "Enum_cls = Cls ''Enum'' [object_cls]"

text \<open>
  Equality of type hints as Python's \<open>==\<close> decides it, which is what a \<open>dict\<close> and
  \<open>functools.lru_cache\<close> compare keys with: class objects and special forms by identity,
  a parameterised generic by origin and arguments, and a union or a parameterised literal
  by the \<^emph>\<open>set\<close> of its arguments, so that \<open>int | str == str | int\<close>.
\<close>

fun py_eq :: "hint \<Rightarrow> hint \<Rightarrow> bool" where
  "py_eq (Class a) (Class b) = (a = b)"
| "py_eq (Special a) (Special b) = (a = b)"
| "py_eq (LiteralOf xs) (LiteralOf ys) = (set xs = set ys)"
| "py_eq (UnionOf xs) (UnionOf ys) =
     (list_all (\<lambda>x. list_ex (\<lambda>y. py_eq x y) ys) xs \<and> list_all (\<lambda>y. list_ex (\<lambda>x. py_eq x y) xs) ys)"
| "py_eq (Alias a xs) (Alias b ys) = (py_eq a b \<and> list_all2 (\<lambda>x y. py_eq x y) xs ys)"
| "py_eq _ _ = False"

text \<open>\<open>typing.get_origin\<close> and \<open>typing.get_args\<close> (the arguments of a literal are values, not
  hints, and no code here asks for them).\<close>

fun get_origin :: "hint \<Rightarrow> hint option" where
  "get_origin (UnionOf xs) = Some (Special ''Union'')"
| "get_origin (Alias a xs) = Some a"
| "get_origin (LiteralOf xs) = Some (Special ''Literal'')"
| "get_origin _ = None"

fun get_args :: "hint \<Rightarrow> hint list" where
  "get_args (UnionOf xs) = xs"
| "get_args (Alias a xs) = xs"
| "get_args _ = []"

fun isclass :: "hint \<Rightarrow> bool" where
  "isclass (Class c) = True"
| "isclass _ = False"

text \<open>\<open>issubclass(t, cls)\<close> for a class \<open>t\<close>: a second argument that is not a class raises
  \<open>TypeError\<close>. (Python accepts a union written \<open>X | Y\<close> there; a registration
  under such a key with \<open>supports_subclass=True\<close> is outside this model.)\<close>

fun issubclass :: "hint \<Rightarrow> hint \<Rightarrow> error + bool" where
  "issubclass (Class c) (Class k) = Inr (c = k \<or> k \<in> set (mro c))"
| "issubclass _ _ = Inl TypeError"

definition any_issubclass :: "hint \<Rightarrow> hint \<Rightarrow> error + bool" where
  "any_issubclass t cls = (if \<not> isclass t then Inr False else issubclass t cls)"

definition is_union :: "hint \<Rightarrow> bool" where
  "is_union obj = (let origin = get_origin obj in origin = Some (Special ''Union''))"

definition get_left :: "hint \<Rightarrow> error + hint" where
  "get_left obj =
     (if \<not> is_union obj then Inr obj
      else case get_args obj of [] \<Rightarrow> Inl IndexError | a # _ \<Rightarrow> Inr a)"

subsection \<open>Converter objects, the registry and the resolution cache\<close>

datatype converter_class =
  FloatConverter | IntConverter | StringConverter | EnumConverter | BoolConverter

text \<open>A converter instance: its class and the \<open>type\<close> attribute set by \<open>__init__\<close>.\<close>

datatype converter = Converter (class_of: converter_class) (type_of: hint)

text \<open>
  A \<open>dict\<close> keyed by type hints, in insertion order: assigning to a key that is already
  there keeps its place.
\<close>

fun dict_get :: "(hint \<times> 'v) list \<Rightarrow> hint \<Rightarrow> 'v option" where
  "dict_get [] k = None"
| "dict_get ((k', v) # d) k = (if py_eq k' k then Some v else dict_get d k)"

fun dict_set :: "(hint \<times> 'v) list \<Rightarrow> hint \<Rightarrow> 'v \<Rightarrow> (hint \<times> 'v) list" where
  "dict_set [] k v = [(k, v)]"
| "dict_set ((k', v') # d) k v = (if py_eq k' k then (k', v) # d else (k', v') # dict_set d k v)"

text \<open>
  The state of the module: the dictionary \<open>_converters\<close>, the cache that
  \<open>functools.lru_cache(maxsize=128)\<close> keeps for \<open>get_converter\<close> (most recently used first;
  it holds the \<^emph>\<open>returned object\<close> of each call that returned) and the converter objects
  made so far. A reference to a converter object is its index in \<open>heap\<close>; two references
  are the same object exactly when they are equal.
\<close>

type_synonym ref = nat

record state =
  converters :: "(hint \<times> converter_class \<times> bool) list"
  cache :: "(hint \<times> ref) list"
  heap :: "converter list"

definition add_converter :: "hint \<Rightarrow> converter_class \<Rightarrow> bool \<Rightarrow> state \<Rightarrow> state" where
  "add_converter t converter supports_subclass s =
     s\<lparr>converters := dict_set (converters s) t (converter, supports_subclass), cache := []\<rparr>"

text \<open>\<open>converter(origin)\<close>: a new object.\<close>

definition new_converter :: "converter_class \<Rightarrow> hint \<Rightarrow> state \<Rightarrow> ref \<times> state" where
  "new_converter converter origin s = (length (heap s), s\<lparr>heap := heap s @ [Converter converter origin]\<rparr>)"

text \<open>The \<open>for\<close> loop over \<open>_converters.items()\<close>; \<open>None\<close> when it falls through.\<close>

fun scan_subclasses ::
  "hint \<Rightarrow> (hint \<times> converter_class \<times> bool) list \<Rightarrow> error + converter_class option" where
  "scan_subclasses origin [] = Inr None"
| "scan_subclasses origin ((k, converter, supports_subclass) # items) =
     (if supports_subclass then
        (case any_issubclass origin k of
           Inl e \<Rightarrow> Inl e
         | Inr True \<Rightarrow> Inr (Some converter)
         | Inr False \<Rightarrow> scan_subclasses origin items)
      else scan_subclasses origin items)"

text \<open>The body of \<open>get_converter\<close>, as it runs when the cache has no entry for the call.\<close>

definition get_converter_body :: "hint \<Rightarrow> state \<Rightarrow> (error + ref) \<times> state" where
  "get_converter_body type' s =
     (case get_left type' of
        Inl e \<Rightarrow> (Inl e, s)
      | Inr left \<Rightarrow>
          (let origin = (case get_origin left of Some origin' \<Rightarrow> origin' | None \<Rightarrow> left) in
           case dict_get (converters s) origin of
             Some (converter, _) \<Rightarrow> (case new_converter converter origin s of (r, s') \<Rightarrow> (Inr r, s'))
           | None \<Rightarrow>
               (case scan_subclasses origin (converters s) of
                  Inl e \<Rightarrow> (Inl e, s)
                | Inr (Some converter) \<Rightarrow>
                    (case new_converter converter origin s of (r, s') \<Rightarrow> (Inr r, s'))
                | Inr None \<Rightarrow> (Inl (ConverterError type'), s))))"

text \<open>
  \<open>get_converter\<close> behind \<open>functools.lru_cache(maxsize=128)\<close>: a call whose argument equals a
  cached key returns the cached object without running the body and makes that entry the
  most recent; otherwise the body runs, and when it returns (an exception is not cached)
  its result is stored, the least recently used entry making room.
\<close>

fun cache_find :: "(hint \<times> ref) list \<Rightarrow> hint \<Rightarrow> (hint \<times> ref) option" where
  "cache_find [] k = None"
| "cache_find ((k', r) # c) k = (if py_eq k' k then Some (k', r) else cache_find c k)"

fun cache_remove :: "(hint \<times> ref) list \<Rightarrow> hint \<Rightarrow> (hint \<times> ref) list" where
  "cache_remove [] k = []"
| "cache_remove ((k', r) # c) k = (if py_eq k' k then c else (k', r) # cache_remove c k)"

definition get_converter :: "hint \<Rightarrow> state \<Rightarrow> (error + ref) \<times> state" where
  "get_converter type' s =
     (case cache_find (cache s) type' of
        Some (k, r) \<Rightarrow> (Inr r, s\<lparr>cache := (k, r) # cache_remove (cache s) type'\<rparr>)
      | None \<Rightarrow>
          (case get_converter_body type' s of
             (Inl e, s') \<Rightarrow> (Inl e, s')
           | (Inr r, s') \<Rightarrow> (Inr r, s'\<lparr>cache := take 128 ((type', r) # cache s')\<rparr>)))"

text \<open>A state is well formed when the references in the cache denote objects.\<close>

definition cache_wf :: "state \<Rightarrow> bool" where
  "cache_wf s = list_all (\<lambda>(k, r). r < length (heap s)) (cache s)"

text \<open>The state after the module is imported: the six registrations at its end.\<close>

definition module_state :: state where
  "module_state =
     add_converter (Class bool_cls) BoolConverter False
       (add_converter (Class Enum_cls) EnumConverter True
         (add_converter (Special ''Literal'') StringConverter False
           (add_converter (Class str_cls) StringConverter True
             (add_converter (Class int_cls) IntConverter True
               (add_converter (Class float_cls) FloatConverter True
                 \<lparr>converters = [], cache = [], heap = []\<rparr>)))))"

section \<open>Values and the dynamic dispatch of the converter methods\<close>

text \<open>
  The values that reach a converter: \<open>None\<close>, booleans, integers, floats, strings, and
  instances of other classes. \<open>VInst c v\<close> is an instance of the class \<open>c\<close> that carries
  \<open>v\<close>: for a class derived from \<open>int\<close>, \<open>str\<close> or \<open>float\<close> the value of that base, whose
  methods the instance inherits; for a member of an enumeration its \<open>value\<close>.
\<close>

datatype pyval =
    VNone
  | VBool bool
  | VInt int
  | VFloat float64
  | VStr pystr
  | VInst cls pyval

fun as_int :: "pyval \<Rightarrow> int option" where
  "as_int (VInt i) = Some i"
| "as_int (VBool b) = Some (if b then 1 else 0)"
| "as_int (VInst c v) = (if int_cls \<in> set (mro c) then as_int v else None)"
| "as_int _ = None"

fun as_str :: "pyval \<Rightarrow> pystr option" where
  "as_str (VStr x) = Some x"
| "as_str (VInst c v) = (if str_cls \<in> set (mro c) then as_str v else None)"
| "as_str _ = None"

fun as_float :: "pyval \<Rightarrow> float64 option" where
  "as_float (VFloat x) = Some x"
| "as_float (VInst c v) = (if float_cls \<in> set (mro c) then as_float v else None)"
| "as_float _ = None"

text \<open>The truth value of an object; an instance of a class with none of the three value
  bases is true.\<close>

fun truthy :: "pyval \<Rightarrow> bool" where
  "truthy VNone = False"
| "truthy (VBool b) = b"
| "truthy (VInt i) = (i \<noteq> 0)"
| "truthy (VFloat x) = (take_bit 63 x \<noteq> 0)"
| "truthy (VStr x) = (x \<noteq> [])"
| "truthy (VInst c v) =
     (if int_cls \<in> set (mro c) \<or> str_cls \<in> set (mro c) \<or> float_cls \<in> set (mro c)
      then truthy v else True)"

text \<open>\<open>obj.value\<close>: only members of enumerations have it.\<close>

fun value_attr :: "pyval \<Rightarrow> pyval option" where
  "value_attr (VInst c v) = (if Enum_cls \<in> set (mro c) then Some v else None)"
| "value_attr _ = None"

text \<open>
  The conversion of an integer to a double that \<open>struct.pack("d", ...)\<close> applies to an
  integer argument: round to nearest, ties to even, \<open>OverflowError\<close> beyond the range.
\<close>

definition double_of_int :: "int \<Rightarrow> error + float64" where
  "double_of_int i =
     (let m = nat \<bar>i\<bar>; n = nat_bit_length m; sign = (if i < 0 then 2 ^ 63 else 0 :: nat) in
      if m = 0 then Inr 0
      else if n \<le> 53 then Inr (of_nat (sign + (n - 1 + 1023) * 2 ^ 52 + (m * 2 ^ (53 - n) - 2 ^ 52)))
      else
        (let sh = n - 53; q0 = m div 2 ^ sh; r = m mod 2 ^ sh; half = 2 ^ (sh - 1);
             q1 = (if half < r \<or> (r = half \<and> odd q0) then q0 + 1 else q0);
             q = (if q1 = 2 ^ 53 then 2 ^ 52 else q1);
             e = (if q1 = 2 ^ 53 then n else n - 1)
         in if 1023 < e then Inl OverflowError
            else Inr (of_nat (sign + (e + 1023) * 2 ^ 52 + (q - 2 ^ 52)))))"

text \<open>
  What the Python runtime supplies and the repository does not define: the byte order
  of the machine, and what calling a type object with one argument returns
  (\<open>self.type(x)\<close>: the member of an enumeration with that value, an instance of a class
  derived from \<open>int\<close>, or an exception).
\<close>

record runtime =
  byte_order :: byteorder
  construct :: "hint \<Rightarrow> pyval \<Rightarrow> error + pyval"

type_synonym to_str_method = "converter \<Rightarrow> pyval \<Rightarrow> state \<Rightarrow> (error + pystr) \<times> state"
type_synonym from_str_method = "converter \<Rightarrow> pystr \<Rightarrow> state \<Rightarrow> (error + pystr \<times> pyval) \<times> state"

subsection \<open>IntConverter and EnumConverter\<close>

text \<open>
  Both delegate to the converter that \<open>get_converter\<close> returns; \<open>call\<close> is the method of that
  object, found at run time. The order of evaluation is Python's: in
  \<open>get_converter(str).to_str(obj.to_bytes(...))\<close> the converter is resolved before the
  argument is computed.
\<close>

definition IntConverter_to_str :: "to_str_method \<Rightarrow> pyval \<Rightarrow> state \<Rightarrow> (error + pystr) \<times> state" where
  "IntConverter_to_str call obj s =
     (case as_int obj of
        None \<Rightarrow> (Inl AttributeError, s)
      | Some i \<Rightarrow>
          (let byte_length = bit_length i div 8 + 1 in
           case get_converter (Class str_cls) s of
             (Inl e, s') \<Rightarrow> (Inl e, s')
           | (Inr r, s') \<Rightarrow>
               (case int_to_bytes i byte_length of
                  Inl e \<Rightarrow> (Inl e, s')
                | Inr bs \<Rightarrow> call (heap s' ! r) (VStr (decode_latin1 bs)) s')))"

definition type_from_bytes :: "runtime \<Rightarrow> hint \<Rightarrow> pyval \<Rightarrow> error + pyval" where
  "type_from_bytes rt t x =
     (case t of
        Class c \<Rightarrow>
          (if c = int_cls \<or> int_cls \<in> set (mro c) then
             (case as_str x of
                None \<Rightarrow> Inl AttributeError
              | Some str \<Rightarrow>
                  (case encode_latin1 str of
                     Inl e \<Rightarrow> Inl e
                   | Inr bs \<Rightarrow>
                       (let i = VInt (int (int_from_bytes bs)) in
                        if c = int_cls then Inr i else construct rt t i)))
           else Inl AttributeError)
      | _ \<Rightarrow> Inl AttributeError)"

definition IntConverter_from_str ::
  "runtime \<Rightarrow> from_str_method \<Rightarrow> converter \<Rightarrow> pystr \<Rightarrow> state \<Rightarrow> (error + pystr \<times> pyval) \<times> state" where
  "IntConverter_from_str rt call self obj s =
     (case get_converter (Class str_cls) s of
        (Inl e, s') \<Rightarrow> (Inl e, s')
      | (Inr r, s') \<Rightarrow>
          (case call (heap s' ! r) obj s' of
             (Inl e, s'') \<Rightarrow> (Inl e, s'')
           | (Inr (remaining, x), s'') \<Rightarrow>
               (case type_from_bytes rt (type_of self) x of
                  Inl e \<Rightarrow> (Inl e, s'')
                | Inr v \<Rightarrow> (Inr (remaining, v), s''))))"

definition EnumConverter_to_str :: "to_str_method \<Rightarrow> pyval \<Rightarrow> state \<Rightarrow> (error + pystr) \<times> state" where
  "EnumConverter_to_str call obj s =
     (case get_converter (Class int_cls) s of
        (Inl e, s') \<Rightarrow> (Inl e, s')
      | (Inr r, s') \<Rightarrow>
          (case value_attr obj of
             None \<Rightarrow> (Inl AttributeError, s')
           | Some v \<Rightarrow> call (heap s' ! r) v s'))"

definition EnumConverter_from_str ::
  "runtime \<Rightarrow> from_str_method \<Rightarrow> converter \<Rightarrow> pystr \<Rightarrow> state \<Rightarrow> (error + pystr \<times> pyval) \<times> state" where
  "EnumConverter_from_str rt call self obj s =
     (case get_converter (Class int_cls) s of
        (Inl e, s') \<Rightarrow> (Inl e, s')
      | (Inr r, s') \<Rightarrow>
          (case call (heap s' ! r) obj s' of
             (Inl e, s'') \<Rightarrow> (Inl e, s'')
           | (Inr (remaining, enum), s'') \<Rightarrow>
               (case construct rt (type_of self) enum of
                  Inl e \<Rightarrow> (Inl e, s'')
                | Inr v \<Rightarrow> (Inr (remaining, v), s''))))"

subsection \<open>The methods of a converter object\<close>

text \<open>
  \<open>converter.to_str(val)\<close> and \<open>converter.from_str(obj)\<close> for a converter object of any of the
  five classes and any value. The first argument bounds the depth of the calls between
  converters, as the interpreter's recursion limit does: a registry that sends \<open>str\<close> to
  \<open>IntConverter\<close> makes \<open>IntConverter\<close> call itself without end, and Python raises
  \<open>RecursionError\<close>.
\<close>

definition struct_pack_d_obj :: "byteorder \<Rightarrow> pyval \<Rightarrow> error + bytes" where
  "struct_pack_d_obj bo obj =
     (case as_float obj of
        Some x \<Rightarrow> Inr (struct_pack_d bo x)
      | None \<Rightarrow>
          (case as_int obj of
             None \<Rightarrow> Inl StructError
           | Some i \<Rightarrow> (case double_of_int i of Inl e \<Rightarrow> Inl e | Inr x \<Rightarrow> Inr (struct_pack_d bo x))))"

fun to_str :: "runtime \<Rightarrow> nat \<Rightarrow> converter \<Rightarrow> pyval \<Rightarrow> state \<Rightarrow> (error + pystr) \<times> state" where
  "to_str rt 0 self obj s = (Inl RecursionError, s)"
| "to_str rt (Suc depth) self obj s =
     (case class_of self of
        StringConverter \<Rightarrow>
          (case as_str obj of
             None \<Rightarrow> (Inl TypeError, s)
           | Some x \<Rightarrow> (StringConverter_to_str x, s))
      | BoolConverter \<Rightarrow> (Inr (BoolConverter_to_str (truthy obj)), s)
      | FloatConverter \<Rightarrow>
          (case struct_pack_d_obj (byte_order rt) obj of
             Inl e \<Rightarrow> (Inl e, s)
           | Inr bs \<Rightarrow> (Inr (decode_latin1 bs), s))
      | IntConverter \<Rightarrow> IntConverter_to_str (to_str rt depth) obj s
      | EnumConverter \<Rightarrow> EnumConverter_to_str (to_str rt depth) obj s)"

fun from_str :: "runtime \<Rightarrow> nat \<Rightarrow> converter \<Rightarrow> pystr \<Rightarrow> state \<Rightarrow> (error + pystr \<times> pyval) \<times> state" where
  "from_str rt 0 self obj s = (Inl RecursionError, s)"
| "from_str rt (Suc depth) self obj s =
     (case class_of self of
        StringConverter \<Rightarrow>
          (case StringConverter_from_str obj of
             Inl e \<Rightarrow> (Inl e, s)
           | Inr (remaining, string) \<Rightarrow> (Inr (remaining, VStr string), s))
      | BoolConverter \<Rightarrow>
          (case BoolConverter_from_str obj of
             Inl e \<Rightarrow> (Inl e, s)
           | Inr (remaining, b) \<Rightarrow> (Inr (remaining, VBool b), s))
      | FloatConverter \<Rightarrow>
          (case FloatConverter_from_str (byte_order rt) obj of
             Inl e \<Rightarrow> (Inl e, s)
           | Inr (remaining, x) \<Rightarrow> (Inr (remaining, VFloat x), s))
      | IntConverter \<Rightarrow> IntConverter_from_str rt (from_str rt depth) self obj s
      | EnumConverter \<Rightarrow> EnumConverter_from_str rt (from_str rt depth) self obj s)"

section \<open>Serialising and deserialising a custom id\<close>

text \<open>
  Modelled from the spec: \<open>flare.utils.gather_iter\<close>, which the repository defines outside
  the files at hand. It awaits the coroutines it is given and returns their results in
  the order of the coroutines. None of the five converters suspends, so each coroutine
  runs to its end in turn, and the first exception in that order is the exception of the
  whole.
\<close>

fun gather_iter :: "(state \<Rightarrow> (error + 'a) \<times> state) list \<Rightarrow> state \<Rightarrow> (error + 'a list) \<times> state" where
  "gather_iter [] s = (Inr [], s)"
| "gather_iter (c # cs) s =
     (case c s of
        (Inl e, s') \<Rightarrow> (Inl e, s')
      | (Inr x, s') \<Rightarrow>
          (case gather_iter cs s' of
             (Inl e, s'') \<Rightarrow> (Inl e, s'')
           | (Inr xs, s'') \<Rightarrow> (Inr (x # xs), s'')))"

text \<open>\<open>kwargs.get(k)\<close> is \<open>None\<close> for a missing key. The result of \<open>to_str\<close> of the five
  converters is never awaitable.\<close>

definition serialize_one ::
  "runtime \<Rightarrow> nat \<Rightarrow> (string \<rightharpoonup> pyval) \<Rightarrow> string \<times> hint \<Rightarrow> state \<Rightarrow> (error + pystr) \<times> state" where
  "serialize_one rt depth kwargs kv s =
     (case kv of (k, v) \<Rightarrow>
        (let val = (case kwargs k of None \<Rightarrow> VNone | Some x \<Rightarrow> x) in
         case get_converter v s of
           (Inl e, s') \<Rightarrow> (Inl e, s')
         | (Inr converter, s') \<Rightarrow> to_str rt depth (heap s' ! converter) val s'))"

definition serialize ::
  "runtime \<Rightarrow> nat \<Rightarrow> pystr \<Rightarrow> (string \<times> hint) list \<Rightarrow> (string \<rightharpoonup> pyval) \<Rightarrow> state \<Rightarrow> (error + pystr) \<times> state" where
  "serialize rt depth cookie types kwargs s =
     (case gather_iter (map (serialize_one rt depth kwargs) types) s of
        (Inl e, s') \<Rightarrow> (Inl e, s')
      | (Inr fragments, s') \<Rightarrow>
          (let out = concat fragments in
           if 100 < length out then (Inl (SerializerError (TooLong cookie (length out) 100)), s')
           else (Inr out, s')))"

text \<open>A component class, as far as \<open>deserialize\<close> looks at it.\<close>

record component =
  component_name :: string
  dataclass_annotations :: "(string \<times> hint) list"

text \<open>The loop over the annotations of the component; \<open>transformed_args\<close> is a dictionary in
  insertion order.\<close>

fun deserialize_fields ::
  "runtime \<Rightarrow> nat \<Rightarrow> (string \<times> hint) list \<Rightarrow> pystr \<Rightarrow> (string \<times> pyval) list \<Rightarrow> state \<Rightarrow>
   (error + (string \<times> pyval) list) \<times> state" where
  "deserialize_fields rt depth [] custom_id transformed_args s = (Inr transformed_args, s)"
| "deserialize_fields rt depth ((k, v) # items) custom_id transformed_args s =
     (case get_converter v s of
        (Inl e, s') \<Rightarrow> (Inl e, s')
      | (Inr converter, s') \<Rightarrow>
          (case from_str rt depth (heap s' ! converter) custom_id s' of
             (Inl e, s'') \<Rightarrow> (Inl e, s'')
           | (Inr (custom_id', val), s'') \<Rightarrow>
               deserialize_fields rt depth items custom_id' (AList.update k val transformed_args) s''))"

text \<open>The cookie that the converter of \<open>str\<close> returns is never awaitable;
  \<open>assert isinstance(cookie, str)\<close> raises \<open>AssertionError\<close> when it is not a string. The
  \<open>print\<close> of the decoded arguments writes to the standard output, which is not part of the
  state here.\<close>

definition deserialize ::
  "runtime \<Rightarrow> nat \<Rightarrow> pystr \<Rightarrow> (pystr \<rightharpoonup> component) \<Rightarrow> state \<Rightarrow>
   (error + component \<times> (string \<times> pyval) list) \<times> state" where
  "deserialize rt depth custom_id component_map s =
     (case get_converter (Class str_cls) s of
        (Inl e, s1) \<Rightarrow> (Inl e, s1)
      | (Inr converter, s1) \<Rightarrow>
          (case from_str rt depth (heap s1 ! converter) custom_id s1 of
             (Inl e, s2) \<Rightarrow> (Inl e, s2)
           | (Inr (custom_id', cookie_obj), s2) \<Rightarrow>
               (case as_str cookie_obj of
                  None \<Rightarrow> (Inl AssertionError, s2)
                | Some cookie \<Rightarrow>
                    (case component_map cookie of
                       None \<Rightarrow> (Inl (SerializerError (DoesNotExist cookie)), s2)
                     | Some component' \<Rightarrow>
                         (case deserialize_fields rt depth (dataclass_annotations component')
                                 custom_id' [] s2 of
                            (Inl e, s3) \<Rightarrow> (Inl e, s3)
                          | (Inr transformed_args, s3) \<Rightarrow>
                              (Inr (component', transformed_args), s3))))))"

text \<open>A runtime for the concrete examples: a little-endian machine on which calling a
  class returns an instance that carries the argument, and calling anything else raises
  \<open>TypeError\<close>.\<close>

definition example_runtime :: runtime where
  "example_runtime =
     \<lparr>byte_order = LittleEndian,
      construct = (\<lambda>t x. case t of Class c \<Rightarrow> Inr (VInst c x) | _ \<Rightarrow> Inl TypeError)\<rparr>"

text \<open>A class of the application that no registration mentions.\<close>

definition Foo_cls :: cls where
  "Foo_cls = Cls ''Foo'' [object_cls]"

text \<open>The converter that \<open>get_converter(int)\<close> makes.\<close>

definition int_converter :: converter where
  "int_converter = Converter IntConverter (Class int_cls)"

text \<open>A component with one integer field.\<close>

definition example_component :: component where
  "example_component =
     \<lparr>component_name = ''Button'', dataclass_annotations = [(''number'', Class int_cls)]\<rparr>"

section \<open>Properties\<close>

subsection \<open>Bytes and strings\<close>

lemma le_bytes_length: "length (le_bytes k n) = k"
  by (induction k arbitrary: n) auto

lemma le_bytes_4: "le_bytes 4 n = of_nat (n mod 256) # le_bytes 3 (n div 256)"
proof -
  have "le_bytes (Suc 3) n = of_nat (n mod 256) # le_bytes 3 (n div 256)"
    by (rule le_bytes.simps)
  moreover have "Suc 3 = 4" by simp
  ultimately show ?thesis by metis
qed

lemma le_bytes_numeral:
  "le_bytes (numeral k) n = of_nat (n mod 256) # le_bytes (pred_numeral k) (n div 256)"
  by (metis le_bytes.simps(2) numeral_eq_Suc)

lemma unat_byte_of_nat: "unat (of_nat n :: byte) = n mod 256"
  by (simp add: unat_of_nat)

lemma encode_decode_latin1: "encode_latin1 (map unat (bs :: bytes)) = Inr bs"
proof -
  have "list_all (\<lambda>c. c < 256) (map unat bs)"
    by (induction bs) (use unsigned_less [where 'b = 8] in \<open>auto\<close>)
  then show ?thesis by (simp add: encode_latin1_def comp_def)
qed

subsection \<open>StringConverter\<close>

lemma StringConverter_to_str_Inr:
  "StringConverter_to_str s = Inr enc \<Longrightarrow>
   enc = (length s mod 256) # map unat (le_bytes 3 (length s div 256)) @ s"
  by (auto simp: StringConverter_to_str_def int_to_bytes_def decode_latin1_def le_bytes_4
        unat_byte_of_nat Let_def split: if_splits)

lemma StringConverter_to_str_ok:
  "length s < 2 ^ 32 \<Longrightarrow>
   StringConverter_to_str s = Inr ((length s mod 256) # map unat (le_bytes 3 (length s div 256)) @ s)"
  by (simp add: StringConverter_to_str_def int_to_bytes_def decode_latin1_def le_bytes_4
        unat_byte_of_nat Let_def)

lemma StringConverter_to_str_overflow:
  "2 ^ 32 \<le> length s \<Longrightarrow> StringConverter_to_str s = Inl OverflowError"
  by (simp add: StringConverter_to_str_def int_to_bytes_def Let_def)

lemma StringConverter_from_str_Cons:
  "c < 256 \<Longrightarrow> StringConverter_from_str (c # rest) = Inr (drop c rest, take c rest)"
  by (simp add: StringConverter_from_str_def encode_latin1_def unat_byte_of_nat)

text \<open>
  C1 (string round trip). The claim fails on the code for every string: \<open>to_str\<close> writes a
  length prefix of four characters, \<open>from_str\<close> reads one character of it, so at least three
  characters of the encoding are left in front of the suffix and the remainder returned is
  never the suffix. Whenever \<open>to_str s\<close> returns an encoding, decoding that encoding followed
  by any suffix does not return the pair of the suffix and \<open>s\<close>.
\<close>

theorem StringConverter_roundtrip_fails:
  assumes "StringConverter_to_str s = Inr enc"
  shows "StringConverter_from_str (enc @ suffix) \<noteq> Inr (suffix, s)"
proof
  assume eq: "StringConverter_from_str (enc @ suffix) = Inr (suffix, s)"
  define c where "c = length s mod 256"
  define rest where "rest = map unat (le_bytes 3 (length s div 256)) @ s @ suffix"
  have enc: "enc @ suffix = c # rest"
    using StringConverter_to_str_Inr [OF assms] by (simp add: c_def rest_def)
  have "c < 256" by (simp add: c_def)
  then have "StringConverter_from_str (enc @ suffix) = Inr (drop c rest, take c rest)"
    unfolding enc by (rule StringConverter_from_str_Cons)
  with eq have "drop c rest = suffix" by simp
  then have "length rest - c = length suffix"
    by (metis length_drop)
  moreover have "length rest = 3 + length s + length suffix"
    by (simp add: rest_def le_bytes_length)
  moreover have "c \<le> length s" by (simp add: c_def)
  ultimately show False by arith
qed

lemma StringConverter_to_str_hi:
  "StringConverter_to_str (str_of ''hi'') = Inr [2, 0, 0, 0, 104, 105]"
  by (simp add: StringConverter_to_str_def int_to_bytes_def decode_latin1_def str_of_def
        le_bytes_numeral)

lemma StringConverter_from_str_hi:
  "StringConverter_from_str [2, 0, 0, 0, 104, 105] = Inr ([0, 104, 105], [0, 0])"
  by (simp add: StringConverter_from_str_def encode_latin1_def)

theorem StringConverter_roundtrip_fails_witness:
  "StringConverter_to_str (str_of ''hi'') = Inr [2, 0, 0, 0, 104, 105] \<and>
   StringConverter_from_str ([2, 0, 0, 0, 104, 105] @ []) \<noteq> Inr ([], str_of ''hi'')"
proof -
  have h: "StringConverter_to_str (str_of ''hi'') = Inr [2, 0, 0, 0, 104, 105]"
    by (rule StringConverter_to_str_hi)
  have c: "StringConverter_from_str ([2, 0, 0, 0, 104, 105] @ []) \<noteq> Inr ([], str_of ''hi'')"
    by (rule StringConverter_roundtrip_fails [OF h])
  from h c show ?thesis by (rule conjI)
qed

subsection \<open>FloatConverter\<close>

text \<open>
  C3 (float round trip). The claim fails on the code for every float: \<open>to_str\<close> writes eight
  characters, \<open>from_str\<close> hands the first two of them to \<open>struct.unpack("d", ...)\<close>, which
  needs eight bytes. Decoding the encoding of any float, followed by any suffix and in
  either byte order, raises \<open>struct.error\<close>.
\<close>

theorem FloatConverter_roundtrip_fails:
  "FloatConverter_from_str bo (FloatConverter_to_str bo v @ suffix) = Inl StructError"
proof -
  define bs where "bs = struct_pack_d bo v"
  have len: "length bs = 8"
    by (simp add: bs_def struct_pack_d_def le_bytes_length split: byteorder.splits)
  have "take 2 (FloatConverter_to_str bo v @ suffix) = map unat (take 2 bs)"
    using len by (simp add: FloatConverter_to_str_def decode_latin1_def bs_def take_map)
  moreover have "length (take 2 bs) \<noteq> 8" by simp
  ultimately show ?thesis
    by (simp add: FloatConverter_from_str_def Let_def encode_decode_latin1 struct_unpack_d_def
          del: take_map take_append)
qed

text \<open>The float 3.14 has the bit pattern \<open>0x40091EB851EB851F\<close>.\<close>

lemma FloatConverter_to_str_pi:
  "FloatConverter_to_str LittleEndian 0x40091EB851EB851F = [31, 133, 235, 81, 184, 30, 9, 64]"
  by (simp add: FloatConverter_to_str_def struct_pack_d_def decode_latin1_def le_bytes_numeral)

lemma FloatConverter_from_str_pi:
  "FloatConverter_from_str LittleEndian [31, 133, 235, 81, 184, 30, 9, 64] = Inl StructError"
  by (simp add: FloatConverter_from_str_def encode_latin1_def struct_unpack_d_def)

subsection \<open>BoolConverter\<close>

text \<open>
  C4 (boolean round trip). \<open>to_str\<close> gives the single character \<open>t\<close> for \<open>True\<close> and \<open>f\<close> for
  \<open>False\<close>, and \<open>from_str\<close> of the encoding of \<open>b\<close> followed by any suffix returns that suffix
  and \<open>b\<close>.
\<close>

theorem BoolConverter_roundtrip:
  "BoolConverter_to_str True = str_of ''t'' \<and> BoolConverter_to_str False = str_of ''f'' \<and>
   length (BoolConverter_to_str b) = 1 \<and>
   BoolConverter_from_str (BoolConverter_to_str b @ suffix) = Inr (suffix, b)"
  by (simp add: BoolConverter_from_str_def BoolConverter_to_str_def str_of_def)

subsection \<open>The registry and its cache\<close>

lemma py_eq_refl: "py_eq h h"
proof (induction h)
  case (UnionOf xs)
  then show ?case by (auto simp: list_all_iff list_ex_iff)
next
  case (Alias a xs)
  then show ?case by (simp add: list_all2_same)
qed simp_all

lemma cache_find_Some: "cache_find c h = Some (k, r) \<Longrightarrow> py_eq k h"
  by (induction c) (auto split: if_splits)

lemma get_converter_hit:
  "cache_find (cache s) h = Some (k, r) \<Longrightarrow>
   get_converter h s = (Inr r, s\<lparr>cache := (k, r) # cache_remove (cache s) h\<rparr>)"
  by (simp add: get_converter_def)

lemma get_converter_body_Inr:
  assumes "get_converter_body h s = (Inr r, s')"
  shows "r = length (heap s) \<and> (\<exists>c. s' = s\<lparr>heap := heap s @ [c]\<rparr>)"
  using assms
  by (auto simp: get_converter_body_def new_converter_def Let_def
      split: sum.splits option.splits prod.splits)

lemma get_converter_body_Inl:
  "get_converter_body h s = (Inl e, s') \<Longrightarrow> s' = s"
  by (auto simp: get_converter_body_def new_converter_def Let_def
      split: sum.splits option.splits prod.splits)

lemma get_converter_miss_Inr:
  assumes "cache_find (cache s) h = None" and "fst (get_converter h s) = Inr r"
  shows "r = length (heap s) \<and>
         (\<exists>c. snd (get_converter h s) = s\<lparr>heap := heap s @ [c], cache := take 128 ((h, r) # cache s)\<rparr>)"
proof -
  obtain res s' where b: "get_converter_body h s = (res, s')" by (cases "get_converter_body h s")
  with assms have res: "res = Inr r"
    by (auto simp: get_converter_def split: sum.splits)
  from get_converter_body_Inr [OF b [unfolded res]] obtain c
    where r: "r = length (heap s)" and s': "s' = s\<lparr>heap := heap s @ [c]\<rparr>" by blast
  have "snd (get_converter h s) = s'\<lparr>cache := take 128 ((h, r) # cache s')\<rparr>"
    using assms(1) b res by (simp add: get_converter_def)
  then show ?thesis using r s' by auto
qed

lemma get_converter_cache_head:
  assumes "fst (get_converter h s) = Inr r"
  shows "\<exists>k c. cache (snd (get_converter h s)) = (k, r) # c \<and> py_eq k h"
proof (cases "cache_find (cache s) h")
  case None
  from get_converter_miss_Inr [OF None assms] show ?thesis
    by (auto simp: py_eq_refl)
next
  case (Some kr)
  obtain k r' where kr: "kr = (k, r')" by (cases kr)
  from Some kr have hit: "cache_find (cache s) h = Some (k, r')" by simp
  from get_converter_hit [OF hit] assms have "r' = r" by simp
  with get_converter_hit [OF hit] cache_find_Some [OF hit] show ?thesis by simp
qed

lemma get_converter_again:
  assumes "fst (get_converter h s) = Inr r"
  shows "get_converter h (snd (get_converter h s)) = (Inr r, snd (get_converter h s))"
proof -
  from get_converter_cache_head [OF assms] obtain k c
    where c: "cache (snd (get_converter h s)) = (k, r) # c" and k: "py_eq k h" by blast
  have "cache_find (cache (snd (get_converter h s))) h = Some (k, r)"
    using c k by simp
  from get_converter_hit [OF this] show ?thesis using c k by simp
qed

lemmas registry_evals = module_state_def add_converter_def get_converter_def get_converter_body_def
  get_left_def is_union_def new_converter_def any_issubclass_def
  int_cls_def str_cls_def object_cls_def float_cls_def bool_cls_def Enum_cls_def Let_def

lemma get_converter_body_not_found:
  assumes "get_left h = Inr left"
    and "origin = (case get_origin left of Some origin' \<Rightarrow> origin' | None \<Rightarrow> left)"
    and "dict_get (converters s) origin = None"
    and "scan_subclasses origin (converters s) = Inr None"
  shows "get_converter_body h s = (Inl (ConverterError h), s)"
  using assms by (simp add: get_converter_body_def Let_def)

lemma get_left_UnionOf: "get_left (UnionOf (a # as)) = Inr a"
  by (simp add: get_left_def is_union_def)

text \<open>On a cache miss a union resolves as its first alternative does, and a hint that
  nothing matches raises \<open>ConverterError\<close> with that hint.\<close>

lemma get_left_not_union: "\<not> is_union a \<Longrightarrow> get_left a = Inr a"
  by (simp add: get_left_def)

lemma get_converter_body_UnionOf:
  assumes "\<not> is_union a"
  shows "(fst (get_converter_body (UnionOf (a # as)) s) = Inr r) = (fst (get_converter_body a s) = Inr r)
       \<and> heap (snd (get_converter_body (UnionOf (a # as)) s)) = heap (snd (get_converter_body a s))"
  by (auto simp: get_converter_body_def get_left_UnionOf get_left_not_union [OF assms] Let_def new_converter_def
      split: option.splits sum.splits prod.splits)

lemma get_converter_not_found_on_miss:
  assumes "cache_find (cache s) h = None"
    and "get_left h = Inr left"
    and "origin = (case get_origin left of Some origin' \<Rightarrow> origin' | None \<Rightarrow> left)"
    and "dict_get (converters s) origin = None"
    and "scan_subclasses origin (converters s) = Inr None"
  shows "get_converter h s = (Inl (ConverterError h), s)"
  by (simp add: get_converter_def assms(1) get_converter_body_not_found [OF assms(2-5)])

text \<open>Every reference that the cache holds, and every reference that \<open>get_converter\<close>
  returns, denotes an object of the heap.\<close>

lemma cache_remove_subset: "x \<in> set (cache_remove c h) \<Longrightarrow> x \<in> set c"
  by (induction c) (auto split: if_splits)

lemma cache_find_mem: "cache_find c h = Some kr \<Longrightarrow> kr \<in> set c"
  by (induction c) (auto split: if_splits)

lemma get_converter_cache_wf:
  assumes "cache_wf s" and "fst (get_converter h s) = Inr r"
  shows "r < length (heap (snd (get_converter h s))) \<and> cache_wf (snd (get_converter h s))"
proof (cases "cache_find (cache s) h")
  case None
  from get_converter_miss_Inr [OF None assms(2)] obtain c
    where r: "r = length (heap s)"
      and s': "snd (get_converter h s) = s\<lparr>heap := heap s @ [c], cache := take 128 ((h, r) # cache s)\<rparr>"
    by blast
  have "\<forall>kr \<in> set (take 128 ((h, r) # cache s)). snd kr < Suc (length (heap s))"
  proof
    fix kr assume "kr \<in> set (take 128 ((h, r) # cache s))"
    then have "kr \<in> set ((h, r) # cache s)" by (rule in_set_takeD)
    with assms(1) r show "snd kr < Suc (length (heap s))"
      by (auto simp: cache_wf_def list_all_iff)
  qed
  then show ?thesis using r by (auto simp: s' cache_wf_def list_all_iff)
next
  case (Some kr)
  obtain k r' where kr: "kr = (k, r')" by (cases kr)
  with Some have hit: "cache_find (cache s) h = Some (k, r')" by simp
  from get_converter_hit [OF hit] assms(2) have r: "r' = r" by simp
  from cache_find_mem [OF hit] assms(1) have "r' < length (heap s)"
    by (auto simp: cache_wf_def list_all_iff)
  moreover have "\<forall>x \<in> set (cache_remove (cache s) h). snd x < length (heap s)"
  proof
    fix x assume "x \<in> set (cache_remove (cache s) h)"
    then have "x \<in> set (cache s)" by (rule cache_remove_subset)
    with assms(1) show "snd x < length (heap s)"
      by (auto simp: cache_wf_def list_all_iff)
  qed
  ultimately show ?thesis using r by (auto simp: get_converter_hit [OF hit] cache_wf_def list_all_iff)
qed

lemma get_converter_Inl_state:
  "fst (get_converter h s) = Inl e \<Longrightarrow> snd (get_converter h s) = s"
  by (auto simp: get_converter_def dest: get_converter_body_Inl split: option.splits sum.splits prod.splits)

lemma add_converter_cache_wf: "cache_wf (add_converter t converter supports_subclass s)"
  by (simp add: cache_wf_def add_converter_def)

lemma module_state_cache_wf: "cache_wf module_state"
  unfolding module_state_def by (rule add_converter_cache_wf)

text \<open>
  C5 (fresh converter per resolution). The claim fails on the code: \<open>lru_cache\<close> stores what
  \<open>get_converter\<close> returned, which is the converter instance and not its class. In the state
  of the freshly imported module, the second call of \<open>get_converter(int)\<close> returns object 0,
  the object that the first call made and returned, and makes no object.
\<close>

theorem get_converter_not_fresh_counterexample:
  "fst (get_converter (Class int_cls) module_state) = Inr 0 \<and>
   heap (snd (get_converter (Class int_cls) module_state)) = [Converter IntConverter (Class int_cls)] \<and>
   fst (get_converter (Class int_cls) (snd (get_converter (Class int_cls) module_state))) = Inr 0 \<and>
   heap (snd (get_converter (Class int_cls) (snd (get_converter (Class int_cls) module_state))))
     = [Converter IntConverter (Class int_cls)]"
  by (simp add: registry_evals)

text \<open>
  C5 as amended: whenever \<open>get_converter(h)\<close> returns an object \<open>r\<close>, then (a) if the cache had
  no entry for \<open>h\<close>, \<open>r\<close> is a new object, the only one the call made; (b) if the cache had
  an entry for \<open>h\<close>, \<open>r\<close> is the object of that entry and the call made no object; (c) the
  next call with the same hint returns the same object \<open>r\<close> and leaves the state as it is.
\<close>

theorem get_converter_caches_instance:
  assumes "fst (get_converter h s) = Inr r"
  shows "(cache_find (cache s) h = None \<longrightarrow>
            r = length (heap s) \<and> length (heap (snd (get_converter h s))) = Suc (length (heap s)))
       \<and> (\<forall>k r'. cache_find (cache s) h = Some (k, r') \<longrightarrow>
            r = r' \<and> heap (snd (get_converter h s)) = heap s)
       \<and> get_converter h (snd (get_converter h s)) = (Inr r, snd (get_converter h s))"
proof (intro conjI impI allI)
  assume miss: "cache_find (cache s) h = None"
  from get_converter_miss_Inr [OF miss assms]
  show "r = length (heap s)" and "length (heap (snd (get_converter h s))) = Suc (length (heap s))"
    by auto
next
  fix k r' assume hit: "cache_find (cache s) h = Some (k, r')"
  from get_converter_hit [OF hit] assms
  show "r = r'" and "heap (snd (get_converter h s)) = heap s" by auto
next
  show "get_converter h (snd (get_converter h s)) = (Inr r, snd (get_converter h s))"
    by (rule get_converter_again [OF assms])
qed

theorem get_converter_caches_instance_witness:
  "cache_find (cache module_state) (Class int_cls) = None \<and>
   fst (get_converter (Class int_cls) module_state) = Inr 0 \<and>
   0 = length (heap module_state) \<and>
   length (heap (snd (get_converter (Class int_cls) module_state))) = Suc (length (heap module_state)) \<and>
   get_converter (Class int_cls) (snd (get_converter (Class int_cls) module_state))
     = (Inr 0, snd (get_converter (Class int_cls) module_state)) \<and>
   cache_find (cache (snd (get_converter (Class int_cls) module_state))) (Class int_cls)
     = Some (Class int_cls, 0) \<and>
   heap (snd (get_converter (Class int_cls) (snd (get_converter (Class int_cls) module_state))))
     = heap (snd (get_converter (Class int_cls) module_state))"
proof -
  define s1 where "s1 = snd (get_converter (Class int_cls) module_state)"
  have miss: "cache_find (cache module_state) (Class int_cls) = None"
    by (simp add: registry_evals)
  have h: "fst (get_converter (Class int_cls) module_state) = Inr 0"
    by (simp add: registry_evals)
  have hit: "cache_find (cache s1) (Class int_cls) = Some (Class int_cls, 0)"
    by (simp add: s1_def registry_evals)
  have h1: "fst (get_converter (Class int_cls) s1) = Inr 0"
    by (simp add: s1_def registry_evals)
  from get_converter_caches_instance [OF h1] hit
  have "heap (snd (get_converter (Class int_cls) s1)) = heap s1" by blast
  with get_converter_caches_instance [OF h] miss h hit show ?thesis
    unfolding s1_def by blast
qed

text \<open>In the freshly imported module \<open>int | str\<close> resolves to an \<open>IntConverter\<close> bound to
  \<open>int\<close>.\<close>

lemma get_converter_int_or_str_fresh:
  "fst (get_converter (UnionOf [Class int_cls, Class str_cls]) module_state) = Inr 0 \<and>
   heap (snd (get_converter (UnionOf [Class int_cls, Class str_cls]) module_state))
     = [Converter IntConverter (Class int_cls)]"
  by (simp add: registry_evals)

text \<open>
  C6 (union dispatch is leftmost). The body of \<open>get_converter\<close> reduces a union to its first
  alternative (\<open>get_left_UnionOf\<close>), as its docstring says, but the cache in front of it
  compares hints with \<open>==\<close>, and \<open>int | str == str | int\<close>. After \<open>get_converter(str | int)\<close>
  in the freshly imported module, \<open>get_converter(int | str)\<close> hits that entry and returns
  object 0, the \<open>StringConverter\<close> bound to \<open>str\<close>, and no \<open>IntConverter\<close> exists.
\<close>

theorem get_converter_union_not_leftmost:
  "fst (get_converter (UnionOf [Class str_cls, Class int_cls]) module_state) = Inr 0 \<and>
   fst (get_converter (UnionOf [Class int_cls, Class str_cls])
          (snd (get_converter (UnionOf [Class str_cls, Class int_cls]) module_state))) = Inr 0 \<and>
   heap (snd (get_converter (UnionOf [Class int_cls, Class str_cls])
          (snd (get_converter (UnionOf [Class str_cls, Class int_cls]) module_state))))
     = [Converter StringConverter (Class str_cls)]"
  by (simp add: registry_evals)

text \<open>
  C9 (converter not found). \<open>Foo\<close> has no registration of its own and is a subclass of no
  registered class, so the hint \<open>Foo | int\<close> reduces to \<open>Foo\<close> and the body raises
  \<open>ConverterError\<close> for it (third conjunct; \<open>get_converter_body_not_found\<close> in general). After
  \<open>get_converter(int | Foo)\<close>, though, the same call hits the cache entry of the equal hint
  \<open>int | Foo\<close> and returns object 0, the \<open>IntConverter\<close> bound to \<open>int\<close>, with no error.
\<close>

theorem get_converter_unregistered_no_error:
  "dict_get (converters module_state) (Class Foo_cls) = None \<and>
   scan_subclasses (Class Foo_cls) (converters module_state) = Inr None \<and>
   fst (get_converter (UnionOf [Class Foo_cls, Class int_cls]) module_state)
     = Inl (ConverterError (UnionOf [Class Foo_cls, Class int_cls])) \<and>
   fst (get_converter (UnionOf [Class Foo_cls, Class int_cls])
          (snd (get_converter (UnionOf [Class int_cls, Class Foo_cls]) module_state))) = Inr 0 \<and>
   heap (snd (get_converter (UnionOf [Class Foo_cls, Class int_cls])
          (snd (get_converter (UnionOf [Class int_cls, Class Foo_cls]) module_state))))
     = [Converter IntConverter (Class int_cls)]"
  by (simp add: registry_evals Foo_cls_def)

subsection \<open>IntConverter\<close>

lemma nat_bit_length_bound: "n < 2 ^ nat_bit_length n"
proof (induction n rule: nat_bit_length.induct)
  case (1 n)
  show ?case
  proof (cases "n = 0")
    case True
    then show ?thesis by (simp add: nat_bit_length.simps)
  next
    case False
    with 1 have "n div 2 < 2 ^ nat_bit_length (n div 2)" by simp
    then have "n < 2 * 2 ^ nat_bit_length (n div 2)" by arith
    with False show ?thesis by (subst nat_bit_length.simps) simp
  qed
qed

lemma nat_bit_length_pow2: "nat_bit_length (2 ^ k) = Suc k"
proof (induction k)
  case 0
  show ?case by (simp add: nat_bit_length.simps)
next
  case (Suc k)
  then show ?case by (subst nat_bit_length.simps) simp
qed

lemma bit_length_pow2: "bit_length (2 ^ k) = Suc k"
proof -
  have "nat \<bar>2 ^ k :: int\<bar> = (2::nat) ^ k" by (simp add: nat_power_eq)
  then show ?thesis by (simp only: bit_length_def nat_bit_length_pow2)
qed

lemma int_to_bytes_fits:
  assumes "0 \<le> v"
  shows "int_to_bytes v (bit_length v div 8 + 1) = Inr (le_bytes (bit_length v div 8 + 1) (nat v))"
proof -
  define b where "b = bit_length v"
  have "nat v < 2 ^ b"
    using assms nat_bit_length_bound [of "nat v"] by (simp add: b_def bit_length_def)
  also have "(2::nat) ^ b \<le> 2 ^ (8 * (b div 8 + 1))"
    by (rule power_increasing) auto
  also have "(2::nat) ^ (8 * (b div 8 + 1)) = (2 ^ 8) ^ (b div 8 + 1)"
    by (rule power_mult)
  also have "(2::nat) ^ 8 = 256" by simp
  finally show ?thesis using assms by (simp add: int_to_bytes_def b_def)
qed

lemma int_to_bytes_negative: "v < 0 \<Longrightarrow> int_to_bytes v n = Inl OverflowError"
  by (simp add: int_to_bytes_def)

lemma IntConverter_to_str_eval:
  assumes "fst (get_converter (Class str_cls) s) = Inr r"
    and "class_of (heap (snd (get_converter (Class str_cls) s)) ! r) = StringConverter"
  shows "IntConverter_to_str (to_str rt (Suc d)) (VInt v) s =
           (if v < 0 then Inl OverflowError
            else StringConverter_to_str (decode_latin1 (le_bytes (bit_length v div 8 + 1) (nat v))),
            snd (get_converter (Class str_cls) s))"
proof -
  obtain s' where g: "get_converter (Class str_cls) s = (Inr r, s')"
    using assms(1) by (cases "get_converter (Class str_cls) s") auto
  with assms(2) have c: "class_of (heap s' ! r) = StringConverter" by simp
  show ?thesis
  proof (cases "v < 0")
    case True
    then show ?thesis by (simp add: IntConverter_to_str_def g int_to_bytes_negative)
  next
    case False
    then have "0 \<le> v" by simp
    from int_to_bytes_fits [OF this] False show ?thesis
      by (simp add: IntConverter_to_str_def g c Let_def)
  qed
qed

lemma length_decode_latin1: "length (decode_latin1 bs) = length bs"
  by (simp add: decode_latin1_def)

lemma StringConverter_from_str_of_to_str:
  assumes "StringConverter_to_str x = Inr enc"
  shows "\<exists>rem str. StringConverter_from_str enc = Inr (rem, str) \<and> 3 \<le> length rem"
proof -
  define c where "c = length x mod 256"
  define rest where "rest = map unat (le_bytes 3 (length x div 256)) @ x"
  have enc: "enc = c # rest"
    using StringConverter_to_str_Inr [OF assms] by (simp add: c_def rest_def)
  have "c < 256" by (simp add: c_def)
  then have d: "StringConverter_from_str enc = Inr (drop c rest, take c rest)"
    unfolding enc by (rule StringConverter_from_str_Cons)
  have "length rest = 3 + length x" by (simp add: rest_def le_bytes_length)
  moreover have "c \<le> length x" by (simp add: c_def)
  ultimately have "3 \<le> length (drop c rest)" by simp
  with d show ?thesis by blast
qed

lemma module_state_str:
  "fst (get_converter (Class str_cls) module_state) = Inr 0"
  "class_of (heap (snd (get_converter (Class str_cls) module_state)) ! 0) = StringConverter"
  by (simp_all add: registry_evals)

lemma bit_length_300: "bit_length 300 = 9"
  by (simp add: bit_length_def nat_bit_length.simps)

lemma IntConverter_to_str_result:
  assumes "fst (get_converter (Class str_cls) s) = Inr r"
    and "class_of (heap (snd (get_converter (Class str_cls) s)) ! r) = StringConverter"
  shows "fst (IntConverter_to_str (to_str rt (Suc d)) (VInt v) s) =
           (if v < 0 \<or> 2 ^ 32 \<le> bit_length v div 8 + 1 then Inl OverflowError
            else Inr (((bit_length v div 8 + 1) mod 256)
                      # map unat (le_bytes 3 ((bit_length v div 8 + 1) div 256))
                      @ decode_latin1 (le_bytes (bit_length v div 8 + 1) (nat v))))"
proof -
  define n where "n = bit_length v div 8 + 1"
  define x where "x = decode_latin1 (le_bytes n (nat v))"
  have len: "length x = n" by (simp add: x_def length_decode_latin1 le_bytes_length)
  have "fst (IntConverter_to_str (to_str rt (Suc d)) (VInt v) s) =
          (if v < 0 then Inl OverflowError else StringConverter_to_str x)"
    by (simp add: IntConverter_to_str_eval [OF assms] x_def n_def)
  also have "\<dots> = (if v < 0 \<or> 2 ^ 32 \<le> n then Inl OverflowError
                    else Inr ((n mod 256) # map unat (le_bytes 3 (n div 256)) @ x))"
    using StringConverter_to_str_ok [of x] StringConverter_to_str_overflow [of x] len
    by (cases "2 ^ 32 \<le> n") auto
  finally show ?thesis by (simp add: n_def x_def)
qed

lemma IntConverter_to_str_pow:
  assumes "fst (get_converter (Class str_cls) s) = Inr r"
    and "class_of (heap (snd (get_converter (Class str_cls) s)) ! r) = StringConverter"
    and "2 ^ 32 \<le> k + 1"
  shows "fst (IntConverter_to_str (to_str rt (Suc d)) (VInt (2 ^ (8 * k))) s) = Inl OverflowError"
proof -
  have "bit_length (2 ^ (8 * k)) div 8 + 1 = k + 1"
    by (simp add: bit_length_pow2)
  with assms(3) show ?thesis
    by (simp only: IntConverter_to_str_result [OF assms(1,2)] if_True simp_thms)
qed

lemma IntConverter_to_str_300:
  "fst (to_str example_runtime (Suc (Suc 0)) int_converter (VInt 300) module_state)
     = Inr [2, 0, 0, 0, 44, 1]"
  by (simp add: int_converter_def registry_evals IntConverter_to_str_def StringConverter_to_str_def
        int_to_bytes_def decode_latin1_def le_bytes_numeral unat_byte_of_nat bit_length_300)

lemma IntConverter_from_str_300:
  "fst (from_str example_runtime (Suc (Suc 0)) int_converter [2, 0, 0, 0, 44, 1]
         (snd (to_str example_runtime (Suc (Suc 0)) int_converter (VInt 300) module_state)))
     = Inr ([0, 44, 1], VInt 0)"
  by (simp add: int_converter_def registry_evals IntConverter_to_str_def StringConverter_to_str_def
        int_to_bytes_def decode_latin1_def le_bytes_numeral unat_byte_of_nat bit_length_300
        IntConverter_from_str_def StringConverter_from_str_def encode_latin1_def type_from_bytes_def)

text \<open>
  C2 (integer round trip). The claim fails on the code for every integer, by the defect of
  C1: \<open>IntConverter\<close> delegates to the string converter, whose decoder leaves at least three
  characters of the encoding in the remainder. In a state in which \<open>get_converter(str)\<close>
  returns a \<open>StringConverter\<close>, whenever \<open>to_str(v)\<close> of an \<open>IntConverter\<close> returns an encoding,
  \<open>from_str\<close> of that encoding does not return \<open>v\<close> with the empty remainder. For 300 the
  encoding is \<open>02 00 00 00 2c 01\<close> and the decoder returns the integer 0 and the remainder
  \<open>00 2c 01\<close> (\<open>IntConverter_from_str_300\<close>).
\<close>

theorem IntConverter_roundtrip_fails:
  assumes "fst (get_converter (Class str_cls) s) = Inr r"
    and "class_of (heap (snd (get_converter (Class str_cls) s)) ! r) = StringConverter"
    and "fst (to_str rt (Suc (Suc d)) (Converter IntConverter t) (VInt v) s) = Inr enc"
  shows "fst (from_str rt (Suc (Suc d')) (Converter IntConverter t) enc
               (snd (to_str rt (Suc (Suc d)) (Converter IntConverter t) (VInt v) s)))
         \<noteq> Inr ([], VInt v)"
proof -
  define s1 where "s1 = snd (get_converter (Class str_cls) s)"
  define x where "x = decode_latin1 (le_bytes (bit_length v div 8 + 1) (nat v))"
  have enc_eval: "to_str rt (Suc (Suc d)) (Converter IntConverter t) (VInt v) s =
          (if v < 0 then Inl OverflowError else StringConverter_to_str x, s1)"
    by (simp add: IntConverter_to_str_eval [OF assms(1,2)] s1_def x_def)
  with assms(3) have enc: "StringConverter_to_str x = Inr enc"
    by (simp split: if_splits)
  from StringConverter_from_str_of_to_str [OF enc] obtain rem str
    where dec: "StringConverter_from_str enc = Inr (rem, str)" and rem: "3 \<le> length rem"
    by blast
  have again: "get_converter (Class str_cls) s1 = (Inr r, s1)"
    unfolding s1_def by (rule get_converter_again [OF assms(1)])
  have cls: "class_of (heap s1 ! r) = StringConverter"
    using assms(2) by (simp add: s1_def)
  have "fst (from_str rt (Suc (Suc d')) (Converter IntConverter t) enc s1) =
          (case type_from_bytes rt t (VStr str) of Inl e \<Rightarrow> Inl e | Inr v' \<Rightarrow> Inr (rem, v'))"
    by (simp add: IntConverter_from_str_def again cls dec split: sum.splits)
  moreover have "rem \<noteq> []" using rem by auto
  ultimately have ne: "fst (from_str rt (Suc (Suc d')) (Converter IntConverter t) enc s1) \<noteq> Inr ([], VInt v)"
    by (simp split: sum.splits)
  have "snd (to_str rt (Suc (Suc d)) (Converter IntConverter t) (VInt v) s) = s1"
    by (simp only: enc_eval snd_conv)
  with ne show ?thesis by metis
qed

theorem IntConverter_roundtrip_fails_witness:
  "fst (get_converter (Class str_cls) module_state) = Inr 0 \<and>
   class_of (heap (snd (get_converter (Class str_cls) module_state)) ! 0) = StringConverter \<and>
   fst (to_str example_runtime (Suc (Suc 0)) (Converter IntConverter (Class int_cls)) (VInt 300) module_state)
     = Inr [2, 0, 0, 0, 44, 1] \<and>
   fst (from_str example_runtime (Suc (Suc 0)) (Converter IntConverter (Class int_cls)) [2, 0, 0, 0, 44, 1]
         (snd (to_str example_runtime (Suc (Suc 0)) (Converter IntConverter (Class int_cls)) (VInt 300) module_state)))
     \<noteq> Inr ([], VInt 300)"
proof -
  have h: "fst (to_str example_runtime (Suc (Suc 0)) (Converter IntConverter (Class int_cls)) (VInt 300) module_state)
     = Inr [2, 0, 0, 0, 44, 1]"
    using IntConverter_to_str_300 by (simp only: int_converter_def)
  have c: "fst (from_str example_runtime (Suc (Suc 0)) (Converter IntConverter (Class int_cls)) [2, 0, 0, 0, 44, 1]
         (snd (to_str example_runtime (Suc (Suc 0)) (Converter IntConverter (Class int_cls)) (VInt 300) module_state)))
     \<noteq> Inr ([], VInt 300)"
    by (rule IntConverter_roundtrip_fails [OF module_state_str h])
  from module_state_str h c show ?thesis by blast
qed

text \<open>
  C10 (domain of the integer encoding). The claim fails on the code at one end: a
  non-negative integer whose byte length \<open>bit_length(v) // 8 + 1\<close> reaches \<open>2 ^ 32\<close> makes
  the four-byte length prefix of the string encoding overflow. \<open>2 ^ (8 * (2 ^ 32 - 1))\<close> has
  byte length \<open>2 ^ 32\<close>, and \<open>to_str\<close> raises \<open>OverflowError\<close> for it.
\<close>

theorem IntConverter_to_str_huge_counterexample:
  "fst (IntConverter_to_str (to_str example_runtime (Suc 0)) (VInt (2 ^ (8 * 4294967295))) module_state)
     = Inl OverflowError"
proof -
  have "(2::nat) ^ 32 \<le> 4294967295 + 1" by simp
  then show ?thesis by (rule IntConverter_to_str_pow [OF module_state_str])
qed

text \<open>
  C10 as amended: in a state in which \<open>get_converter(str)\<close> returns a \<open>StringConverter\<close>,
  \<open>IntConverter.to_str(v)\<close> returns a string exactly when \<open>v\<close> is non-negative and its
  byte length \<open>bit_length(v) // 8 + 1\<close> is below \<open>2 ^ 32\<close>; for every negative integer and for
  every integer of byte length \<open>2 ^ 32\<close> or more it raises \<open>OverflowError\<close>.
\<close>

theorem IntConverter_to_str_domain:
  assumes "fst (get_converter (Class str_cls) s) = Inr r"
    and "class_of (heap (snd (get_converter (Class str_cls) s)) ! r) = StringConverter"
  shows "(\<exists>out. fst (IntConverter_to_str (to_str rt (Suc d)) (VInt v) s) = Inr out)
           = (0 \<le> v \<and> bit_length v div 8 + 1 < 2 ^ 32)
       \<and> (v < 0 \<or> 2 ^ 32 \<le> bit_length v div 8 + 1 \<longrightarrow>
            fst (IntConverter_to_str (to_str rt (Suc d)) (VInt v) s) = Inl OverflowError)"
  by (auto simp: IntConverter_to_str_result [OF assms])

theorem IntConverter_to_str_domain_witness:
  "fst (get_converter (Class str_cls) module_state) = Inr 0 \<and>
   class_of (heap (snd (get_converter (Class str_cls) module_state)) ! 0) = StringConverter \<and>
   (\<exists>out. fst (IntConverter_to_str (to_str example_runtime (Suc 0)) (VInt 300) module_state) = Inr out) \<and>
   fst (IntConverter_to_str (to_str example_runtime (Suc 0)) (VInt (- 1)) module_state) = Inl OverflowError"
proof -
  note t = IntConverter_to_str_domain [OF module_state_str, of example_runtime 0]
  have "(0::int) \<le> 300 \<and> bit_length 300 div 8 + 1 < 2 ^ 32" by (simp add: bit_length_300)
  with t [of 300] have a: "\<exists>out. fst (IntConverter_to_str (to_str example_runtime (Suc 0)) (VInt 300) module_state) = Inr out"
    by blast
  from t [of "- 1"] have b: "fst (IntConverter_to_str (to_str example_runtime (Suc 0)) (VInt (- 1)) module_state) = Inl OverflowError"
    by simp
  from module_state_str a b show ?thesis by blast
qed

subsection \<open>serialize and deserialize\<close>

lemma gather_iter_Inr_length:
  "gather_iter cs s = (Inr xs, s') \<Longrightarrow> length xs = length cs"
proof (induction cs arbitrary: s xs s')
  case Nil
  then show ?case by simp
next
  case (Cons c cs)
  then show ?case
    by (auto split: prod.splits sum.splits)
qed

lemma gather_iter_length:
  "fst (gather_iter cs s) = Inr xs \<Longrightarrow> length xs = length cs"
  using gather_iter_Inr_length [of cs s xs "snd (gather_iter cs s)"]
  by (cases "gather_iter cs s") simp

lemmas to_str_evals = serialize_one_def IntConverter_to_str_def StringConverter_to_str_def
  int_to_bytes_def decode_latin1_def le_bytes_numeral unat_byte_of_nat bit_length_def
  nat_bit_length.simps str_of_def

lemma gather_iter_example:
  "fst (gather_iter (map (serialize_one example_runtime (Suc (Suc 0))
          [''a'' \<mapsto> VInt 5, ''b'' \<mapsto> VStr (str_of ''x'')])
          [(''a'', Class int_cls), (''b'', Class str_cls)]) module_state)
     = Inr [[1, 0, 0, 0, 5], [1, 0, 0, 0, 120]]"
  by (simp add: registry_evals to_str_evals)

lemma gather_iter_example_long:
  "fst (gather_iter (map (serialize_one example_runtime (Suc (Suc 0))
          [''a'' \<mapsto> VInt 5, ''b'' \<mapsto> VStr (replicate 97 120)])
          [(''a'', Class int_cls), (''b'', Class str_cls)]) module_state)
     = Inr [[1, 0, 0, 0, 5], [97, 0, 0, 0] @ replicate 97 120]"
  by (simp add: registry_evals to_str_evals)

text \<open>
  C7 (size enforcement). When every field of the schema yields its fragment, \<open>serialize\<close>
  returns the concatenation of the fragments, one per field and in the order of the
  schema, if that concatenation has at most 100 characters, and otherwise raises
  \<open>SerializerError\<close> with the cookie, the length of the concatenation and the allowed length
  100; the result is then the error alone, no part of the output.
\<close>

theorem serialize_size_enforcement:
  assumes "fst (gather_iter (map (serialize_one rt depth kwargs) types) s) = Inr fragments"
  shows "fst (serialize rt depth cookie types kwargs s) =
           (if length (concat fragments) \<le> 100 then Inr (concat fragments)
            else Inl (SerializerError (TooLong cookie (length (concat fragments)) 100)))
       \<and> length fragments = length types"
proof
  obtain res s' where g: "gather_iter (map (serialize_one rt depth kwargs) types) s = (res, s')"
    by (cases "gather_iter (map (serialize_one rt depth kwargs) types) s")
  with assms have "res = Inr fragments" by simp
  with g show "fst (serialize rt depth cookie types kwargs s) =
           (if length (concat fragments) \<le> 100 then Inr (concat fragments)
            else Inl (SerializerError (TooLong cookie (length (concat fragments)) 100)))"
    by (simp add: serialize_def Let_def)
  from gather_iter_length [OF assms] show "length fragments = length types" by simp
qed

theorem serialize_size_enforcement_witness:
  "fst (serialize example_runtime (Suc (Suc 0)) (str_of ''ck'')
          [(''a'', Class int_cls), (''b'', Class str_cls)]
          [''a'' \<mapsto> VInt 5, ''b'' \<mapsto> VStr (str_of ''x'')] module_state)
     = Inr [1, 0, 0, 0, 5, 1, 0, 0, 0, 120] \<and>
   fst (serialize example_runtime (Suc (Suc 0)) (str_of ''ck'')
          [(''a'', Class int_cls), (''b'', Class str_cls)]
          [''a'' \<mapsto> VInt 5, ''b'' \<mapsto> VStr (replicate 97 120)] module_state)
     = Inl (SerializerError (TooLong (str_of ''ck'') 106 100))"
proof -
  from serialize_size_enforcement [OF gather_iter_example, of "str_of ''ck''"]
  have a: "fst (serialize example_runtime (Suc (Suc 0)) (str_of ''ck'')
          [(''a'', Class int_cls), (''b'', Class str_cls)]
          [''a'' \<mapsto> VInt 5, ''b'' \<mapsto> VStr (str_of ''x'')] module_state)
     = Inr [1, 0, 0, 0, 5, 1, 0, 0, 0, 120]"
    by simp
  from serialize_size_enforcement [OF gather_iter_example_long, of "str_of ''ck''"]
  have b: "fst (serialize example_runtime (Suc (Suc 0)) (str_of ''ck'')
          [(''a'', Class int_cls), (''b'', Class str_cls)]
          [''a'' \<mapsto> VInt 5, ''b'' \<mapsto> VStr (replicate 97 120)] module_state)
     = Inl (SerializerError (TooLong (str_of ''ck'') 106 100))"
    by simp
  from a b show ?thesis by (rule conjI)
qed

text \<open>
  C8 (unknown cookie). \<open>deserialize\<close> resolves the converter of \<open>str\<close> and decodes the cookie
  with it. In a state in which that converter is a \<open>StringConverter\<close>: when the string
  decoder returns a cookie that the component map does not hold, \<open>deserialize\<close> raises
  \<open>SerializerError\<close> naming that cookie, and the state it leaves is the state right after the
  resolution of \<open>str\<close>: no converter of a field was resolved or called.
\<close>

theorem deserialize_unknown_cookie:
  assumes "fst (get_converter (Class str_cls) s) = Inr r"
    and "class_of (heap (snd (get_converter (Class str_cls) s)) ! r) = StringConverter"
    and "StringConverter_from_str custom_id = Inr (rest, cookie)"
    and "component_map cookie = None"
  shows "deserialize rt (Suc depth) custom_id component_map s =
           (Inl (SerializerError (DoesNotExist cookie)), snd (get_converter (Class str_cls) s))"
proof -
  obtain s1 where g: "get_converter (Class str_cls) s = (Inr r, s1)"
    using assms(1) by (cases "get_converter (Class str_cls) s") auto
  with assms(2) have c: "class_of (heap s1 ! r) = StringConverter" by simp
  show ?thesis
    by (simp add: deserialize_def g c assms(3,4))
qed

theorem deserialize_unknown_cookie_witness:
  "deserialize example_runtime (Suc 0) [2, 0, 0, 0, 97, 98] [str_of ''ab'' \<mapsto> example_component] module_state
     = (Inl (SerializerError (DoesNotExist [0, 0])), snd (get_converter (Class str_cls) module_state))"
proof -
  have d: "StringConverter_from_str [2, 0, 0, 0, 97, 98] = Inr ([0, 97, 98], [0, 0])"
    by (simp add: StringConverter_from_str_def encode_latin1_def)
  have m: "[str_of ''ab'' \<mapsto> example_component] [0, 0] = None"
    by (simp add: str_of_def)
  show ?thesis
    by (rule deserialize_unknown_cookie
          [where component_map = "[str_of ''ab'' \<mapsto> example_component]", OF module_state_str d m])
qed

end
